theory Spec2Isabelle
  imports Complex_Main "HOL-Library.AList" "HOL-Library.Multiset" "HOL-Library.Sublist"
begin

section \<open>The study scheduler of modules/scheduler.py\<close>

text \<open>
  The development embeds \<^verbatim>\<open>calculate_subject_distribution\<close> and
  \<^verbatim>\<open>generate_smart_timetable\<close>.

  Numbers. Python floats and \<^verbatim>\<open>timedelta\<close> values are taken as exact rationals. A
  \<^verbatim>\<open>datetime\<close> is the number of minutes since midnight of \<^verbatim>\<open>datetime.today()\<close>, a
  \<^verbatim>\<open>time\<close> the number of minutes since midnight, so \<^verbatim>\<open>datetime.combine(today, t)\<close> is
  \<open>t\<close> itself; durations named ``minutes'' are minutes and \<^verbatim>\<open>session_duration\<close> is in
  hours, as in the source.

  Libraries. pandas and numpy are not part of the repository. A DataFrame is the list of
  its rows, \<^verbatim>\<open>nlargest\<close> is modelled from its documentation, and numpy's process-global
  generator is a parameter of the development: an abstract generator state with the two
  operations the source calls.
\<close>

subsection \<open>Data\<close>

text \<open>A row of the predictions DataFrame (columns built in \<^verbatim>\<open>show\<close>).\<close>

record prediction =
  subject :: string
  predicted_score :: rat
  difficulty :: rat
  weakness_score :: rat

text \<open>
  The \<^verbatim>\<open>'type'\<close> entry of a slot is one of seven literals of the source.
\<close>

datatype slot_type = Routine | Meal | Study | Break | Revision | Assessment | Free

text \<open>
  The \<^verbatim>\<open>'subject'\<close> entry of a slot is a Python string: a subject name taken from the
  predictions, or one of the fixed labels of the source, which begin with an emoji. A
  Python string is modelled as the list of the bytes of its UTF-8 encoding; equality and
  the substring test \<^verbatim>\<open>in\<close> of an ASCII text are the same on both.
\<close>

definition sunrise :: string where
  "sunrise = [CHR 0xF0, CHR 0x9F, CHR 0x8C, CHR 0x85]"

definition morning_routine_exercise_label :: string where
  "morning_routine_exercise_label = sunrise @ '' Morning Routine (Freshen up, Exercise)''"

definition morning_routine_label :: string where
  "morning_routine_label = sunrise @ '' Morning Routine''"

definition breakfast_label :: string where
  "breakfast_label = [CHR 0xF0, CHR 0x9F, CHR 0x8D, CHR 0xB3] @ '' Breakfast''"

definition lunch_label :: string where
  "lunch_label = [CHR 0xF0, CHR 0x9F, CHR 0x8D, CHR 0x9B] @ '' Lunch''"

definition dinner_label :: string where
  "dinner_label =
     [CHR 0xF0, CHR 0x9F, CHR 0x8D, CHR 0xBD, CHR 0xEF, CHR 0xB8, CHR 0x8F] @ '' Dinner''"

definition break_label :: string where
  "break_label = [CHR 0xE2, CHR 0x98, CHR 0x95] @ '' Break''"

definition self_study_label :: string where
  "self_study_label = [CHR 0xF0, CHR 0x9F, CHR 0x8E, CHR 0xAF] @ '' Self-Study / Review''"

definition mock_test_label :: string where
  "mock_test_label =
     [CHR 0xF0, CHR 0x9F, CHR 0x93, CHR 0x9D] @ '' Mock Test / Practice Problems''"

definition leisure_label :: string where
  "leisure_label = [CHR 0xF0, CHR 0x9F, CHR 0x8E, CHR 0xAE] @ '' Leisure / Relaxation''"

text \<open>The f-string \<^verbatim>\<open>f'... Revision: {w}'\<close>.\<close>

definition revision_label :: "string \<Rightarrow> string" where
  "revision_label w = [CHR 0xF0, CHR 0x9F, CHR 0x93, CHR 0x9A] @ '' Revision: '' @ w"

text \<open>
  A slot. The source stores under \<^verbatim>\<open>'time'\<close> the text
  \<^verbatim>\<open>f"{a.strftime('%H:%M')} - {b.strftime('%H:%M')}"\<close>; the model keeps the two datetimes
  \<open>a\<close> and \<open>b\<close> that are formatted. \<open>duration\<close> is in hours.
\<close>

record slot =
  time_start :: rat
  time_end :: rat
  slot_subject :: string
  slot_type :: slot_type
  duration :: rat

definition mk_slot :: "rat \<Rightarrow> rat \<Rightarrow> string \<Rightarrow> slot_type \<Rightarrow> rat \<Rightarrow> slot" where
  "mk_slot a b l t d =
     \<lparr>time_start = a, time_end = b, slot_subject = l, slot_type = t, duration = d\<rparr>"

text \<open>The \<^verbatim>\<open>meal_times\<close> dictionary: a (time, minutes) pair per meal, and the routine's minutes.\<close>

record meal_times =
  breakfast :: "rat \<times> rat"
  lunch :: "rat \<times> rat"
  dinner :: "rat \<times> rat"
  morning_routine :: rat

text \<open>The remaining arguments of \<^verbatim>\<open>generate_smart_timetable\<close>, bundled.\<close>

record schedule_config =
  wake_time :: rat
  sleep_time :: rat
  break_duration :: rat
  max_sessions_per_day :: int
  session_duration :: rat
  meals :: meal_times

datatype error = IndexError | KeyError | TypeError | InvalidInput | InsufficientData

text \<open>
  numpy's generator: \<^verbatim>\<open>np.random.seed(n)\<close> replaces the global state by one that depends
  on \<open>n\<close> only, \<^verbatim>\<open>np.random.shuffle(xs)\<close> reorders \<open>xs\<close> and advances the state.
\<close>

record 'g np_random =
  np_seed :: "nat \<Rightarrow> 'g"
  np_shuffle :: "'g \<Rightarrow> string list \<Rightarrow> string list \<times> 'g"

type_synonym timetable = "(string \<times> slot list) list"

subsection \<open>calculate\_subject\_distribution\<close>

text \<open>\<^verbatim>\<open>int(x)\<close> on a float truncates towards zero.\<close>

definition py_int :: "rat \<Rightarrow> int" where
  "py_int x = (if 0 \<le> x then \<lfloor>x\<rfloor> else \<lceil>x\<rceil>)"

text \<open>
  A Python dict is an association list in insertion order; \<open>AList.update\<close> overwrites
  the value of a key that is present and appends a new key at the end, as
  \<^verbatim>\<open>d[k] = v\<close> does.
\<close>

definition calculate_subject_distribution :: "prediction list \<Rightarrow> int \<Rightarrow> (string \<times> int) list" where
  "calculate_subject_distribution predictions total_days =
     (let total_weakness = sum_list (map weakness_score predictions) in
      if total_weakness = 0 then
        fold (\<lambda>s days_per_subject. AList.update s 3 days_per_subject)
          (map subject predictions) []
      else
        fold (\<lambda>row days_per_subject.
                let proportion = weakness_score row / total_weakness;
                    days = max 1 (min 6 (py_int (proportion * of_int total_days * 2)))
                in AList.update (subject row) days days_per_subject)
          predictions [])"

subsection \<open>The subject pool and its distribution over the days\<close>

definition days :: "string list" where
  "days = [''Monday'', ''Tuesday'', ''Wednesday'', ''Thursday'', ''Friday'', ''Saturday'',
           ''Sunday'']"

definition build_subject_pool :: "(string \<times> int) list \<Rightarrow> string list" where
  "build_subject_pool days_per_subject =
     concat (map (\<lambda>(subject, days_count). replicate (nat days_count) subject) days_per_subject)"

text \<open>
  The \<^verbatim>\<open>while\<close> loop of one day. \<open>pool_index\<close> is shared by all days; the loop also
  stops after 20 attempts.
\<close>

function draw_subjects ::
  "string list \<Rightarrow> int \<Rightarrow> string list \<Rightarrow> nat \<Rightarrow> nat \<Rightarrow> string list \<times> nat" where
  "draw_subjects subject_pool sessions_for_day day_subjects pool_index attempts =
     (if int (length day_subjects) < sessions_for_day \<and> pool_index < length subject_pool
         \<and> attempts < 20
      then
        (let subject = subject_pool ! (pool_index mod length subject_pool) in
         if count_list day_subjects subject < 2
         then draw_subjects subject_pool sessions_for_day (day_subjects @ [subject])
                (pool_index + 1) (attempts + 1)
         else draw_subjects subject_pool sessions_for_day day_subjects
                (pool_index + 1) (attempts + 1))
      else (day_subjects, pool_index))"
  by pat_completeness auto
termination
  by (relation "measure (\<lambda>(p, n, ds, i, a). 20 - a)") auto

declare draw_subjects.simps [simp del]

definition assign_day ::
  "string list \<Rightarrow> int \<Rightarrow> string \<Rightarrow> (string \<times> string list) list \<times> nat
     \<Rightarrow> (string \<times> string list) list \<times> nat" where
  "assign_day subject_pool max_sessions day st =
     (case st of (subject_assignments, pool_index) \<Rightarrow>
        let sessions_for_day = min max_sessions 4;
            (day_subjects, pool_index') =
               draw_subjects subject_pool sessions_for_day [] pool_index 0
        in (AList.update day day_subjects subject_assignments, pool_index'))"

definition assign_subjects :: "string list \<Rightarrow> int \<Rightarrow> (string \<times> string list) list" where
  "assign_subjects subject_pool max_sessions =
     fst (fold (assign_day subject_pool max_sessions) (butlast days)
            (map (\<lambda>day. (day, [])) (butlast days), 0))"

subsection \<open>The slots of a day, Monday to Saturday\<close>

text \<open>
  One round of the loop over \<^verbatim>\<open>enumerate(subjects_today)\<close>; the state is the slot list
  and \<^verbatim>\<open>current_time\<close>, \<open>n\<close> is \<^verbatim>\<open>len(subjects_today)\<close>.
\<close>

definition schedule_session ::
  "schedule_config \<Rightarrow> nat \<Rightarrow> nat \<times> string \<Rightarrow> slot list \<times> rat \<Rightarrow> slot list \<times> rat" where
  "schedule_session cfg n x st =
     (case x of (i, subj) \<Rightarrow> case st of (slots, current_time) \<Rightarrow>
      let lunch_dt = fst (lunch (meals cfg)); lunch_duration = snd (lunch (meals cfg));
          dinner_dt = fst (dinner (meals cfg)); dinner_duration = snd (dinner (meals cfg));
          session_end = current_time + session_duration cfg * 60;
          (slots, current_time, session_end) =
            (if (current_time < lunch_dt \<and> lunch_dt < session_end)
                \<or> (current_time < lunch_dt \<and> (lunch_dt - current_time) * 60 / 3600 < 1 / 2)
             then
               (let lunch_end = lunch_dt + lunch_duration in
                (slots @ [mk_slot lunch_dt lunch_end lunch_label Meal (lunch_duration / 60)],
                 lunch_end, lunch_end + session_duration cfg * 60))
             else (slots, current_time, session_end));
          (slots, current_time, session_end) =
            (if (current_time < dinner_dt \<and> dinner_dt < session_end)
                \<or> (current_time < dinner_dt \<and> (dinner_dt - current_time) * 60 / 3600 < 1 / 2)
             then
               (let dinner_end = dinner_dt + dinner_duration in
                (slots @ [mk_slot dinner_dt dinner_end dinner_label Meal (dinner_duration / 60)],
                 dinner_end, dinner_end + session_duration cfg * 60))
             else (slots, current_time, session_end));
          slots = slots @ [mk_slot current_time session_end subj Study
                             (session_duration cfg)];
          current_time = session_end
      in if int i < int n - 1
         then (let break_end = current_time + break_duration cfg in
               (slots @ [mk_slot current_time break_end break_label Break
                           (break_duration cfg / 60)],
                break_end))
         else (slots, current_time))"

definition weekday_slots :: "schedule_config \<Rightarrow> string list \<Rightarrow> slot list" where
  "weekday_slots cfg subjects_today =
     (let wake_dt = wake_time cfg;
          morning_routine_duration = morning_routine (meals cfg);
          breakfast_dt = fst (breakfast (meals cfg));
          breakfast_duration = snd (breakfast (meals cfg));
          dinner_dt = fst (dinner (meals cfg)); dinner_duration = snd (dinner (meals cfg));
          routine_start = wake_dt;
          routine_end = routine_start + morning_routine_duration;
          breakfast_end = breakfast_dt + breakfast_duration;
          slots = [mk_slot routine_start routine_end morning_routine_exercise_label Routine
                     (morning_routine_duration / 60),
                   mk_slot breakfast_dt breakfast_end breakfast_label Meal (breakfast_duration / 60)];
          (slots, current_time) =
             fold (schedule_session cfg (length subjects_today))
               (enumerate 0 subjects_today) (slots, breakfast_end)
      in if \<not> list_ex (\<lambda>slot. slot_type slot = Meal \<and> sublist ''Dinner'' (slot_subject slot))
                 slots
         then
           (if current_time < dinner_dt then
              (let slots =
                     (if (dinner_dt - current_time) * 60 / 3600 \<ge> 1
                      then slots @ [mk_slot current_time dinner_dt self_study_label Study
                                      ((dinner_dt - current_time) * 60 / 3600)]
                      else slots)
               in slots @ [mk_slot dinner_dt (dinner_dt + dinner_duration) dinner_label Meal
                             (dinner_duration / 60)])
            else slots)
         else slots)"

text \<open>
  The loop over Monday to Saturday; \<^verbatim>\<open>subject_assignments[day]\<close> raises KeyError on a
  missing key.
\<close>

fun generate_days ::
  "schedule_config \<Rightarrow> (string \<times> string list) list \<Rightarrow> string list \<Rightarrow> timetable
     \<Rightarrow> error + timetable" where
  "generate_days cfg subject_assignments [] timetable = Inr timetable"
| "generate_days cfg subject_assignments (day # rest) timetable =
     (case map_of subject_assignments day of
        None \<Rightarrow> Inl KeyError
      | Some subjects_today \<Rightarrow>
          generate_days cfg subject_assignments rest
            (AList.update day (weekday_slots cfg subjects_today) timetable))"

subsection \<open>Sunday\<close>

text \<open>
  \<^verbatim>\<open>df.nlargest(n, column)\<close> with the default \<^verbatim>\<open>keep='first'\<close>: the first \<open>n\<close> rows in
  descending order of the column, rows with equal values in their original order.
  \<open>sort_key\<close> is a stable sort.
\<close>

definition nlargest :: "nat \<Rightarrow> (prediction \<Rightarrow> rat) \<Rightarrow> prediction list \<Rightarrow> prediction list" where
  "nlargest n column df = take n (sort_key (\<lambda>row. - column row) df)"

definition sunday_slots ::
  "schedule_config \<Rightarrow> rat \<Rightarrow> prediction list \<Rightarrow> error + slot list" where
  "sunday_slots cfg sleep_dt predictions =
     (let wake_dt = wake_time cfg;
          morning_routine_duration = morning_routine (meals cfg);
          breakfast_dt = fst (breakfast (meals cfg));
          breakfast_duration = snd (breakfast (meals cfg));
          lunch_dt = fst (lunch (meals cfg)); lunch_duration = snd (lunch (meals cfg));
          dinner_dt = fst (dinner (meals cfg)); dinner_duration = snd (dinner (meals cfg));
          weak_subjects = map subject (nlargest 3 weakness_score predictions);
          routine_end = wake_dt + morning_routine_duration;
          breakfast_end = breakfast_dt + breakfast_duration
      in case weak_subjects of
           [] \<Rightarrow> Inl IndexError
         | w0 # _ \<Rightarrow>
             Inr [mk_slot wake_dt routine_end morning_routine_label Routine
                    (morning_routine_duration / 60),
                  mk_slot breakfast_dt breakfast_end breakfast_label Meal (breakfast_duration / 60),
                  mk_slot breakfast_end (breakfast_end + 3 / 2 * 60) (revision_label w0) Revision
                    (3 / 2),
                  mk_slot (breakfast_end + 3 / 2 * 60) (breakfast_end + 2 * 60) break_label Break
                    (1 / 2),
                  mk_slot (breakfast_end + 2 * 60) (breakfast_end + 7 / 2 * 60)
                    (revision_label (if length weak_subjects > 1 then weak_subjects ! 1 else w0))
                    Revision (3 / 2),
                  mk_slot lunch_dt (lunch_dt + lunch_duration) lunch_label Meal (lunch_duration / 60),
                  mk_slot (lunch_dt + lunch_duration) (lunch_dt + (lunch_duration + 2 * 60))
                    mock_test_label Assessment 2,
                  mk_slot dinner_dt (dinner_dt + dinner_duration) dinner_label Meal
                    (dinner_duration / 60),
                  mk_slot (dinner_dt + dinner_duration) sleep_dt leisure_label Free
                    ((sleep_dt - (dinner_dt + dinner_duration)) * 60 / 3600)])"

subsection \<open>generate\_smart\_timetable\<close>

text \<open>
  The result is the returned timetable, or the exception raised, together with the state
  in which the call leaves numpy's generator.
\<close>

definition generate_smart_timetable ::
  "'g np_random \<Rightarrow> 'g \<Rightarrow> prediction list \<Rightarrow> schedule_config \<Rightarrow> (error + timetable) \<times> 'g" where
  "generate_smart_timetable rng g predictions cfg =
     (let timetable = map (\<lambda>day. (day, [])) days;
          wake_dt = wake_time cfg;
          sleep_dt = sleep_time cfg;
          sleep_dt = (if sleep_dt \<le> wake_dt then sleep_dt + 24 * 60 else sleep_dt);
          days_per_subject = calculate_subject_distribution predictions 6;
          subject_pool = build_subject_pool days_per_subject;
          g = np_seed rng 42;
          (subject_pool, g) = np_shuffle rng g subject_pool;
          subject_assignments = assign_subjects subject_pool (max_sessions_per_day cfg)
      in case generate_days cfg subject_assignments (butlast days) timetable of
           Inl e \<Rightarrow> (Inl e, g)
         | Inr timetable \<Rightarrow>
             (case sunday_slots cfg sleep_dt predictions of
                Inl e \<Rightarrow> (Inl e, g)
              | Inr sunday \<Rightarrow> (Inr (AList.update ''Sunday'' sunday timetable), g)))"

subsection \<open>Prediction frames without rows\<close>





subsection \<open>Reference definitions and sample inputs\<close>

text \<open>
  The allocation as the specification words it, for a rounding function \<open>rnd\<close>: 3 days
  for every subject when the total weakness is 0, and otherwise
  \<open>clamp (rnd (weakness_score / total * 6 * 2)) 1 6\<close>. The specification's rounding is
  \<open>round\<close>; the source truncates with \<open>py_int\<close>.
\<close>

definition clamp :: "int \<Rightarrow> int \<Rightarrow> int \<Rightarrow> int" where
  "clamp x lo hi = max lo (min hi x)"

definition reference_allocation :: "(rat \<Rightarrow> int) \<Rightarrow> prediction list \<Rightarrow> (string \<times> int) list" where
  "reference_allocation rnd predictions =
     (let total = sum_list (map weakness_score predictions) in
      map (\<lambda>p. (subject p,
                 if total = 0 then 3
                 else clamp (rnd (weakness_score p / total * 6 * 2)) 1 6))
        predictions)"

text \<open>Prediction lists used in the concrete evaluations.\<close>

definition math_history :: "prediction list" where
  "math_history =
     [\<lparr>subject = ''Math'', predicted_score = 40, difficulty = 8, weakness_score = 240\<rparr>,
      \<lparr>subject = ''History'', predicted_score = 85, difficulty = 3, weakness_score = 0\<rparr>]"


subsection \<open>Predicates on schedules and configurations\<close>

text \<open>
  Two slots overlap when their half-open intervals meet. A day is sorted by start time,
  and non-overlapping when no two of its slots overlap.
\<close>

definition overlaps :: "slot \<Rightarrow> slot \<Rightarrow> bool" where
  "overlaps a b \<longleftrightarrow> time_start a < time_end b \<and> time_start b < time_end a"

definition sorted_by_start :: "slot list \<Rightarrow> bool" where
  "sorted_by_start slots \<longleftrightarrow> sorted (map time_start slots)"

definition non_overlapping :: "slot list \<Rightarrow> bool" where
  "non_overlapping slots \<longleftrightarrow> sorted_wrt (\<lambda>a b. \<not> overlaps a b) slots"

text \<open>
  Conditions on a configuration: the morning routine ends before breakfast starts (the
  source places both without a check), and no duration is negative.
\<close>

definition routine_before_breakfast :: "schedule_config \<Rightarrow> bool" where
  "routine_before_breakfast cfg \<longleftrightarrow>
     wake_time cfg + morning_routine (meals cfg) \<le> fst (breakfast (meals cfg))"

definition durations_nonnegative :: "schedule_config \<Rightarrow> bool" where
  "durations_nonnegative cfg \<longleftrightarrow>
     0 \<le> morning_routine (meals cfg) \<and> 0 \<le> snd (breakfast (meals cfg))
     \<and> 0 \<le> snd (lunch (meals cfg)) \<and> 0 \<le> snd (dinner (meals cfg))
     \<and> 0 \<le> break_duration cfg \<and> 0 \<le> session_duration cfg"

text \<open>
  The invariant of the slot loop: each slot ends before the next one starts, and all of
  them end by the cursor \<open>t\<close>.
\<close>

definition sequential :: "slot list \<Rightarrow> rat \<Rightarrow> bool" where
  "sequential slots t \<longleftrightarrow>
     sorted_wrt (\<lambda>a b. time_end a \<le> time_start b) slots
     \<and> (\<forall>a\<in>set slots. time_start a \<le> time_end a \<and> time_end a \<le> t)"

text \<open>The row a dictionary keyed by subject keeps for \<open>s\<close>: the last one.\<close>

definition last_row :: "prediction list \<Rightarrow> string \<Rightarrow> prediction option" where
  "last_row predictions s = find (\<lambda>row. subject row = s) (rev predictions)"

text \<open>The number of Study blocks with label \<open>s\<close> in a day.\<close>

definition study_blocks :: "string \<Rightarrow> slot list \<Rightarrow> nat" where
  "study_blocks s slots = length (filter (\<lambda>sl. slot_type sl = Study \<and> slot_subject sl = s) slots)"


subsection \<open>The phases of one round of the session loop\<close>

text \<open>
  The four phases of \<open>schedule_session\<close>, each on the pair of slot list and cursor: the
  meal rule (used for Lunch, then for Dinner; \<open>sd\<close> is the session length in minutes, so
  \<open>snd st + sd\<close> is \<^verbatim>\<open>session_end\<close>), the Study block, and the Break. Lemma
  \<open>schedule_session_stages\<close> proves that a round is their composition.
\<close>

definition meal_stage :: "rat \<times> rat \<Rightarrow> string \<Rightarrow> rat \<Rightarrow> slot list \<times> rat \<Rightarrow> slot list \<times> rat" where
  "meal_stage meal l sd st =
     (if (snd st < fst meal \<and> fst meal < snd st + sd)
         \<or> (snd st < fst meal \<and> (fst meal - snd st) * 60 / 3600 < 1 / 2)
      then (fst st @ [mk_slot (fst meal) (fst meal + snd meal) l Meal (snd meal / 60)],
            fst meal + snd meal)
      else st)"

definition study_stage :: "schedule_config \<Rightarrow> string \<Rightarrow> slot list \<times> rat \<Rightarrow> slot list \<times> rat" where
  "study_stage cfg subj st =
     (fst st @ [mk_slot (snd st) (snd st + session_duration cfg * 60) subj Study
                  (session_duration cfg)],
      snd st + session_duration cfg * 60)"

definition break_stage :: "schedule_config \<Rightarrow> nat \<Rightarrow> nat \<Rightarrow> slot list \<times> rat \<Rightarrow> slot list \<times> rat" where
  "break_stage cfg n i st =
     (if int i < int n - 1
      then (fst st @ [mk_slot (snd st) (snd st + break_duration cfg) break_label Break
                        (break_duration cfg / 60)],
            snd st + break_duration cfg)
      else st)"

subsection \<open>Names for intermediate values of generate\_smart\_timetable\<close>

definition sleep_dt_of :: "schedule_config \<Rightarrow> rat" where
  "sleep_dt_of cfg =
     (if sleep_time cfg \<le> wake_time cfg then sleep_time cfg + 24 * 60 else sleep_time cfg)"

definition shuffled_pool :: "'g np_random \<Rightarrow> prediction list \<Rightarrow> string list" where
  "shuffled_pool rng predictions =
     fst (np_shuffle rng (np_seed rng 42)
            (build_subject_pool (calculate_subject_distribution predictions 6)))"

definition week_assignments ::
  "'g np_random \<Rightarrow> prediction list \<Rightarrow> schedule_config \<Rightarrow> (string \<times> string list) list" where
  "week_assignments rng predictions cfg =
     assign_subjects (shuffled_pool rng predictions) (max_sessions_per_day cfg)"

subsection \<open>Sample inputs\<close>

text \<open>
  A stand-in for numpy's generator in concrete evaluations: seeding stores the seed,
  shuffling reverses the list and advances the state. The concrete evaluations below use
  a single subject, whose pool is the same list under every permutation, or state a
  result that is the same under every permutation of the pool.
\<close>

definition sample_rng :: "nat np_random" where
  "sample_rng = \<lparr>np_seed = (\<lambda>n. n), np_shuffle = (\<lambda>g xs. (rev xs, Suc g))\<rparr>"

text \<open>
  The defaults of the form in \<^verbatim>\<open>show\<close>: wake 06:00, sleep 23:00, 30 minute breaks, at most
  6 sessions, 1 hour sessions, breakfast 07:30 for 30 minutes, lunch 13:00 for 60, dinner
  20:00 for 45, 45 minutes of morning routine.
\<close>

definition default_meals :: meal_times where
  "default_meals =
     \<lparr>breakfast = (450, 30), lunch = (780, 60), dinner = (1200, 45), morning_routine = 45\<rparr>"

definition default_config :: schedule_config where
  "default_config =
     \<lparr>wake_time = 360, sleep_time = 1380, break_duration = 30, max_sessions_per_day = 6,
      session_duration = 1, meals = default_meals\<rparr>"

text \<open>The defaults with the longest morning routine the form allows, 120 minutes.\<close>

definition long_routine_config :: schedule_config where
  "long_routine_config = default_config\<lparr>meals := default_meals\<lparr>morning_routine := 120\<rparr>\<rparr>"

text \<open>The defaults with breakfast at 09:30, 60 minute breaks and 2 hour sessions.\<close>

definition late_breakfast_config :: schedule_config where
  "late_breakfast_config =
     default_config\<lparr>break_duration := 60, session_duration := 2,
                    meals := default_meals\<lparr>breakfast := (570, 30)\<rparr>\<rparr>"

definition math_only :: "prediction list" where
  "math_only =
     [\<lparr>subject = ''Math'', predicted_score = 40, difficulty = 8, weakness_score = 240\<rparr>]"


text \<open>A subject with two rows.\<close>

definition repeated_subject :: "prediction list" where
  "repeated_subject =
     [\<lparr>subject = ''A'', predicted_score = 60, difficulty = 1, weakness_score = 10\<rparr>,
      \<lparr>subject = ''B'', predicted_score = 65, difficulty = 1, weakness_score = 5\<rparr>,
      \<lparr>subject = ''A'', predicted_score = 70, difficulty = 1, weakness_score = 0\<rparr>]"

text \<open>Two subjects, the first named like the filler block.\<close>

definition filler_named :: "prediction list" where
  "filler_named =
     [\<lparr>subject = self_study_label, predicted_score = 40, difficulty = 8, weakness_score = 240\<rparr>,
      \<lparr>subject = ''History'', predicted_score = 85, difficulty = 3, weakness_score = 0\<rparr>]"

text \<open>Monday of \<open>math_only\<close> under \<open>long_routine_config\<close>.\<close>

definition long_routine_monday :: "slot list" where
  "long_routine_monday =
     [mk_slot 360 480 morning_routine_exercise_label Routine 2,
      mk_slot 450 480 breakfast_label Meal (1 / 2),
      mk_slot 480 540 ''Math'' Study 1,
      mk_slot 540 570 break_label Break (1 / 2),
      mk_slot 570 630 ''Math'' Study 1,
      mk_slot 630 1200 self_study_label Study (19 / 2),
      mk_slot 1200 1245 dinner_label Meal (3 / 4)]"

section \<open>Properties\<close>

subsection \<open>Dictionaries built by repeated assignment\<close>



lemma map_of_fold_update:
  "map_of (fold (\<lambda>x. AList.update (k x) (v x)) xs acc)
     = map_of acc ++ map_of (rev (map (\<lambda>x. (k x, v x)) xs))"
proof (induction xs arbitrary: acc)
  case Nil
  then show ?case by simp
next
  case (Cons x xs)
  show ?case
    by (simp add: Cons.IH update_conv' fun_eq_iff map_add_def split: option.splits)
qed

subsection \<open>The day allocation\<close>

lemma csd_fold:
  "calculate_subject_distribution predictions 6
     = fold (\<lambda>p. AList.update (subject p)
               (if sum_list (map weakness_score predictions) = 0 then 3
                else clamp (py_int (weakness_score p
                                      / sum_list (map weakness_score predictions) * 6 * 2)) 1 6))
         predictions []"
  by (simp add: calculate_subject_distribution_def Let_def clamp_def fold_map comp_def)

lemma csd_map_of:
  "map_of (calculate_subject_distribution predictions 6)
     = map_of (rev (reference_allocation py_int predictions))"
  unfolding csd_fold map_of_fold_update reference_allocation_def Let_def by simp


lemma py_int_mono: "x \<le> y \<Longrightarrow> py_int x \<le> py_int y"
proof -
  assume xy: "x \<le> y"
  consider "0 \<le> x" | "x < 0" "0 \<le> y" | "y < 0" using xy by linarith
  then show ?thesis
  proof cases
    case 1
    then show ?thesis using xy by (simp add: py_int_def floor_mono)
  next
    case 2
    have "\<lceil>x\<rceil> \<le> 0" using 2(1) by (simp add: ceiling_le_iff)
    moreover have "0 \<le> \<lfloor>y\<rfloor>" using 2(2) by simp
    ultimately have "\<lceil>x\<rceil> \<le> \<lfloor>y\<rfloor>" by linarith
    then show ?thesis using 2 by (simp add: py_int_def)
  next
    case 3
    then show ?thesis using xy by (simp add: py_int_def ceiling_mono)
  qed
qed






lemma map_of_map_find:
  "map_of (map (\<lambda>p. (k p, f p)) xs) s = map_option f (find (\<lambda>p. k p = s) xs)"
  by (induction xs) auto

lemma csd_last_row:
  "map_of (calculate_subject_distribution predictions 6) s
     = map_option
         (\<lambda>p. if sum_list (map weakness_score predictions) = 0 then 3
              else clamp (py_int (weakness_score p
                                    / sum_list (map weakness_score predictions) * 6 * 2)) 1 6)
         (last_row predictions s)"
proof -
  have "rev (reference_allocation py_int predictions)
          = map (\<lambda>p. (subject p,
                       if sum_list (map weakness_score predictions) = 0 then 3
                       else clamp (py_int (weakness_score p
                                    / sum_list (map weakness_score predictions) * 6 * 2)) 1 6))
              (rev predictions)"
    by (simp add: reference_allocation_def Let_def rev_map)
  then show ?thesis
    unfolding csd_map_of last_row_def by (simp only: map_of_map_find)
qed

lemma last_row_distinct:
  "distinct (map subject predictions) \<Longrightarrow> p \<in> set predictions \<Longrightarrow>
   last_row predictions (subject p) = Some p"
proof -
  assume d: "distinct (map subject predictions)" and p: "p \<in> set predictions"
  have "distinct (map subject xs) \<Longrightarrow> p \<in> set xs \<Longrightarrow>
        find (\<lambda>row. subject row = subject p) xs = Some p" for xs
    by (induction xs) (auto simp: image_iff)
  from this [of "rev predictions"] d p show ?thesis
    by (simp add: last_row_def rev_map [symmetric])
qed

text \<open>
  C4, as stated: with a strictly positive total, a subject with a higher weakness_score
  never receives fewer days than one with a lower weakness_score. It fails when a subject
  has two rows: for A 10, B 5, A 0 the dictionary keeps the days of the last row of A, so
  A, which has a row of weakness_score 10, receives 1 day and B, with 5, receives 4.
\<close>

theorem repeated_subject_breaks_monotonicity:
  "0 < sum_list (map weakness_score repeated_subject)
   \<and> \<lparr>subject = ''A'', predicted_score = 60, difficulty = 1, weakness_score = 10\<rparr>
       \<in> set repeated_subject
   \<and> \<lparr>subject = ''B'', predicted_score = 65, difficulty = 1, weakness_score = 5\<rparr>
       \<in> set repeated_subject
   \<and> map_of (calculate_subject_distribution repeated_subject 6) ''A'' = Some 1
   \<and> map_of (calculate_subject_distribution repeated_subject 6) ''B'' = Some 4"
  by (simp add: repeated_subject_def calculate_subject_distribution_def py_int_def floor_eq_iff)

text \<open>
  C4, amended: for every prediction list whose total weakness_score is strictly positive,
  every subject's allocated day count lies in [1, 6]; a subject's allocation is computed
  from its last row, and a subject whose last row has a weakness_score at least that of
  another subject's last row receives at least as many days. When every subject has one
  row, a subject with a higher weakness_score receives at least as many days as any
  subject with a lower one.
\<close>

theorem allocation_in_range_and_monotone:
  assumes "0 < sum_list (map weakness_score predictions)"
  shows "(\<forall>p\<in>set predictions. \<exists>d.
            map_of (calculate_subject_distribution predictions 6) (subject p) = Some d
            \<and> 1 \<le> d \<and> d \<le> 6)
       \<and> (\<forall>s s' p q. last_row predictions s = Some p \<and> last_row predictions s' = Some q
              \<and> weakness_score q \<le> weakness_score p \<longrightarrow>
            (\<exists>dp dq.
               map_of (calculate_subject_distribution predictions 6) s = Some dp
               \<and> map_of (calculate_subject_distribution predictions 6) s' = Some dq
               \<and> dq \<le> dp))
       \<and> (distinct (map subject predictions) \<longrightarrow>
            (\<forall>p\<in>set predictions. \<forall>q\<in>set predictions.
               weakness_score q \<le> weakness_score p \<longrightarrow>
               (\<exists>dp dq.
                  map_of (calculate_subject_distribution predictions 6) (subject p) = Some dp
                  \<and> map_of (calculate_subject_distribution predictions 6) (subject q) = Some dq
                  \<and> dq \<le> dp)))"
proof -
  let ?t = "sum_list (map weakness_score predictions)"
  define f :: "prediction \<Rightarrow> int" where
    "f = (\<lambda>p. clamp (py_int (weakness_score p / ?t * 6 * 2)) 1 6)"
  have fb: "1 \<le> f q \<and> f q \<le> 6" for q
    by (simp add: f_def clamp_def)
  have look: "map_of (calculate_subject_distribution predictions 6) s
                = map_option f (last_row predictions s)" for s
    using assms by (simp add: csd_last_row f_def)
  have fmono: "f q \<le> f p" if "weakness_score q \<le> weakness_score p" for p q
  proof -
    have "weakness_score q / ?t * 6 * 2 \<le> weakness_score p / ?t * 6 * 2"
      using that assms by (simp add: divide_right_mono)
    then have "py_int (weakness_score q / ?t * 6 * 2) \<le> py_int (weakness_score p / ?t * 6 * 2)"
      by (rule py_int_mono)
    then show ?thesis by (simp add: f_def clamp_def)
  qed
  have range: "\<exists>d. map_of (calculate_subject_distribution predictions 6) (subject p) = Some d
                 \<and> 1 \<le> d \<and> d \<le> 6"
    if "p \<in> set predictions" for p
  proof -
    have "p \<in> set (rev predictions)" using that by simp
    then have "find (\<lambda>row. subject row = subject p) (rev predictions) \<noteq> None"
      by (auto simp: find_None_iff)
    then obtain r where "last_row predictions (subject p) = Some r"
      by (auto simp: last_row_def)
    with fb [of r] show ?thesis by (simp add: look)
  qed
  have mono: "\<exists>dp dq.
               map_of (calculate_subject_distribution predictions 6) s = Some dp
               \<and> map_of (calculate_subject_distribution predictions 6) s' = Some dq
               \<and> dq \<le> dp"
    if "last_row predictions s = Some p" "last_row predictions s' = Some q"
       "weakness_score q \<le> weakness_score p" for s s' p q
    using that fmono [of q p] by (simp add: look)
  have one: "\<exists>dp dq.
                  map_of (calculate_subject_distribution predictions 6) (subject p) = Some dp
                  \<and> map_of (calculate_subject_distribution predictions 6) (subject q) = Some dq
                  \<and> dq \<le> dp"
    if "distinct (map subject predictions)" "p \<in> set predictions" "q \<in> set predictions"
       "weakness_score q \<le> weakness_score p" for p q
    using mono [OF last_row_distinct [OF that(1,2)] last_row_distinct [OF that(1,3)] that(4)] .
  show ?thesis using range mono one by blast
qed

theorem allocation_in_range_and_monotone_witness:
  "0 < sum_list (map weakness_score math_history)
   \<and> distinct (map subject math_history)
   \<and> (\<exists>dp dq.
         map_of (calculate_subject_distribution math_history 6) ''Math'' = Some dp
         \<and> map_of (calculate_subject_distribution math_history 6) ''History'' = Some dq
         \<and> 1 \<le> dq \<and> dq \<le> dp \<and> dp \<le> 6)
   \<and> last_row repeated_subject ''A''
        = Some \<lparr>subject = ''A'', predicted_score = 70, difficulty = 1, weakness_score = 0\<rparr>
   \<and> last_row repeated_subject ''B''
        = Some \<lparr>subject = ''B'', predicted_score = 65, difficulty = 1, weakness_score = 5\<rparr>
   \<and> (\<exists>dp dq.
         map_of (calculate_subject_distribution repeated_subject 6) ''B'' = Some dp
         \<and> map_of (calculate_subject_distribution repeated_subject 6) ''A'' = Some dq
         \<and> dq \<le> dp)"
proof -
  let ?m = "\<lparr>subject = ''Math'', predicted_score = 40, difficulty = 8, weakness_score = 240\<rparr>"
  let ?h = "\<lparr>subject = ''History'', predicted_score = 85, difficulty = 3, weakness_score = 0\<rparr>"
  let ?a = "\<lparr>subject = ''A'', predicted_score = 70, difficulty = 1, weakness_score = 0\<rparr>"
  let ?b = "\<lparr>subject = ''B'', predicted_score = 65, difficulty = 1, weakness_score = 5\<rparr>"
  have h1: "0 < sum_list (map weakness_score math_history)" by (simp add: math_history_def)
  have h2: "distinct (map subject math_history)" by (simp add: math_history_def)
  have m: "?m \<in> set math_history" and h: "?h \<in> set math_history"
    by (simp_all add: math_history_def)
  note inst = allocation_in_range_and_monotone [OF h1]
  from inst h2 m h have
    "\<exists>dp dq. map_of (calculate_subject_distribution math_history 6) (subject ?m) = Some dp
       \<and> map_of (calculate_subject_distribution math_history 6) (subject ?h) = Some dq
       \<and> dq \<le> dp"
    by fastforce
  moreover from inst m have
    "\<exists>d. map_of (calculate_subject_distribution math_history 6) (subject ?m) = Some d
       \<and> 1 \<le> d \<and> d \<le> 6"
    by blast
  moreover from inst h have
    "\<exists>d. map_of (calculate_subject_distribution math_history 6) (subject ?h) = Some d
       \<and> 1 \<le> d \<and> d \<le> 6"
    by blast
  ultimately have first:
    "\<exists>dp dq.
         map_of (calculate_subject_distribution math_history 6) ''Math'' = Some dp
         \<and> map_of (calculate_subject_distribution math_history 6) ''History'' = Some dq
         \<and> 1 \<le> dq \<and> dq \<le> dp \<and> dp \<le> 6"
    by fastforce
  have r1: "0 < sum_list (map weakness_score repeated_subject)"
    by (simp add: repeated_subject_def)
  have la: "last_row repeated_subject ''A'' = Some ?a"
    and lb: "last_row repeated_subject ''B'' = Some ?b"
    by (simp_all add: repeated_subject_def last_row_def)
  have le: "weakness_score ?a \<le> weakness_score ?b" by simp
  from allocation_in_range_and_monotone [OF r1] lb la le have second:
    "\<exists>dp dq.
         map_of (calculate_subject_distribution repeated_subject 6) ''B'' = Some dp
         \<and> map_of (calculate_subject_distribution repeated_subject 6) ''A'' = Some dq
         \<and> dq \<le> dp"
    by blast
  from h1 h2 first la lb second show ?thesis by blast
qed

subsection \<open>One round of the session loop\<close>

lemma schedule_session_stages:
  "schedule_session cfg n (i, subj) st =
     break_stage cfg n i
       (study_stage cfg subj
          (meal_stage (dinner (meals cfg)) dinner_label (session_duration cfg * 60)
             (meal_stage (lunch (meals cfg)) lunch_label (session_duration cfg * 60) st)))"
proof (cases st)
  case (Pair slots t)
  let ?sd = "session_duration cfg * 60"
  let ?L = "(t < fst (lunch (meals cfg)) \<and> fst (lunch (meals cfg)) < t + ?sd)
         \<or> (t < fst (lunch (meals cfg)) \<and> (fst (lunch (meals cfg)) - t) * 60 / 3600 < 1 / 2)"
  let ?D = "\<lambda>c. (c < fst (dinner (meals cfg)) \<and> fst (dinner (meals cfg)) < c + ?sd)
         \<or> (c < fst (dinner (meals cfg)) \<and> (fst (dinner (meals cfg)) - c) * 60 / 3600 < 1 / 2)"
  note defs = Pair schedule_session_def meal_stage_def study_stage_def break_stage_def
    Let_def prod.case fst_conv snd_conv if_True if_False
  show ?thesis
  proof (cases ?L)
    case L: True
    show ?thesis
    proof (cases "?D (fst (lunch (meals cfg)) + snd (lunch (meals cfg)))")
      case True
      with L show ?thesis by (simp only: defs)
    next
      case False
      with L show ?thesis by (simp only: defs)
    qed
  next
    case L: False
    show ?thesis
    proof (cases "?D t")
      case True
      with L show ?thesis by (simp only: defs)
    next
      case False
      with L show ?thesis by (simp only: defs)
    qed
  qed
qed

lemma meal_stage_not_before:
  "fst meal \<le> snd st \<Longrightarrow> meal_stage meal l sd st = st"
  by (simp add: meal_stage_def)

subsection \<open>Slots in sequence\<close>

lemma sequential_snoc:
  "sequential slots t \<Longrightarrow> t \<le> a \<Longrightarrow> a \<le> b \<Longrightarrow> sequential (slots @ [mk_slot a b l ty d]) b"
  unfolding sequential_def mk_slot_def
  by (fastforce simp: sorted_wrt_append)

lemma sequential_sorted: "sequential slots t \<Longrightarrow> sorted_by_start slots"
  unfolding sequential_def sorted_by_start_def sorted_map
  by (erule conjE, erule sorted_wrt_mono_rel [rotated]) fastforce

lemma sequential_non_overlapping: "sequential slots t \<Longrightarrow> non_overlapping slots"
  unfolding sequential_def non_overlapping_def overlaps_def
  by (erule conjE, erule sorted_wrt_mono_rel [rotated]) fastforce

lemma meal_stage_sequential:
  "0 \<le> snd meal \<Longrightarrow> sequential (fst st) (snd st) \<Longrightarrow>
   sequential (fst (meal_stage meal l sd st)) (snd (meal_stage meal l sd st))"
  unfolding meal_stage_def by (auto intro!: sequential_snoc)

lemma study_stage_sequential:
  "0 \<le> session_duration cfg \<Longrightarrow> sequential (fst st) (snd st) \<Longrightarrow>
   sequential (fst (study_stage cfg subj st)) (snd (study_stage cfg subj st))"
  unfolding study_stage_def by (auto intro!: sequential_snoc)

lemma break_stage_sequential:
  "0 \<le> break_duration cfg \<Longrightarrow> sequential (fst st) (snd st) \<Longrightarrow>
   sequential (fst (break_stage cfg n i st)) (snd (break_stage cfg n i st))"
  unfolding break_stage_def by (auto intro!: sequential_snoc)

lemma schedule_session_sequential:
  assumes "durations_nonnegative cfg" and "sequential (fst st) (snd st)"
  shows "sequential (fst (schedule_session cfg n x st)) (snd (schedule_session cfg n x st))"
proof -
  obtain i subj where x: "x = (i, subj)" by (cases x)
  have ld: "0 \<le> snd (lunch (meals cfg))" and dd: "0 \<le> snd (dinner (meals cfg))"
    and sd: "0 \<le> session_duration cfg" and bd: "0 \<le> break_duration cfg"
    using assms(1) by (simp_all add: durations_nonnegative_def)
  show ?thesis
    unfolding x schedule_session_stages
    by (intro break_stage_sequential study_stage_sequential meal_stage_sequential
          ld dd sd bd assms(2))
qed

lemma fold_schedule_session_sequential:
  "durations_nonnegative cfg \<Longrightarrow> sequential (fst st) (snd st) \<Longrightarrow>
   sequential (fst (fold (schedule_session cfg n) xs st))
     (snd (fold (schedule_session cfg n) xs st))"
  by (induction xs arbitrary: st) (simp_all add: schedule_session_sequential)

lemma weekday_slots_sequential:
  assumes "durations_nonnegative cfg" and "routine_before_breakfast cfg"
  shows "\<exists>t. sequential (weekday_slots cfg subjects_today) t"
proof -
  let ?b = "fst (breakfast (meals cfg))" and ?bd = "snd (breakfast (meals cfg))"
  let ?w = "wake_time cfg" and ?mr = "morning_routine (meals cfg)"
  let ?d = "fst (dinner (meals cfg))" and ?dd = "snd (dinner (meals cfg))"
  let ?init = "[mk_slot ?w (?w + ?mr) morning_routine_exercise_label Routine (?mr / 60),
                mk_slot ?b (?b + ?bd) breakfast_label Meal (?bd / 60)]"
  have nn: "0 \<le> ?mr" "0 \<le> ?bd" "0 \<le> ?dd" and rb: "?w + ?mr \<le> ?b"
    using assms by (simp_all add: durations_nonnegative_def routine_before_breakfast_def)
  have "sequential [] ?w" by (simp add: sequential_def)
  from sequential_snoc [OF this, of ?w "?w + ?mr"] nn
  have "sequential [mk_slot ?w (?w + ?mr) morning_routine_exercise_label Routine (?mr / 60)] (?w + ?mr)"
    by simp
  from sequential_snoc [OF this rb, of "?b + ?bd"] nn
  have init: "sequential ?init (?b + ?bd)" by simp
  obtain slots t where f:
    "fold (schedule_session cfg (length subjects_today)) (enumerate 0 subjects_today)
       (?init, ?b + ?bd) = (slots, t)"
    by (cases "fold (schedule_session cfg (length subjects_today)) (enumerate 0 subjects_today)
       (?init, ?b + ?bd)")
  from fold_schedule_session_sequential [OF assms(1), of "(?init, ?b + ?bd)"
      "length subjects_today" "enumerate 0 subjects_today"] init f
  have st: "sequential slots t" by simp
  have filler: "sequential (slots @ [mk_slot t ?d self_study_label Study ((?d - t) * 60 / 3600)]) ?d"
    if "t < ?d"
    using sequential_snoc [OF st, of t ?d] that by simp
  have d1: "sequential (slots @ [mk_slot ?d (?d + ?dd) dinner_label Meal (?dd / 60)]) (?d + ?dd)"
    if "t < ?d"
    using sequential_snoc [OF st, of ?d "?d + ?dd"] that nn by simp
  have d2: "sequential ((slots @ [mk_slot t ?d self_study_label Study ((?d - t) * 60 / 3600)])
                @ [mk_slot ?d (?d + ?dd) dinner_label Meal (?dd / 60)]) (?d + ?dd)"
    if "t < ?d"
    using sequential_snoc [OF filler [OF that], of ?d "?d + ?dd"] nn by simp
  have "sequential (weekday_slots cfg subjects_today) t
        \<or> sequential (weekday_slots cfg subjects_today) (?d + ?dd)"
    unfolding weekday_slots_def Let_def f prod.case
    using st d1 d2 by (simp only: split: if_split) auto
  then show ?thesis by blast
qed

subsection \<open>Study blocks of a day\<close>

lemma meal_stage_study:
  "filter (\<lambda>sl. slot_type sl = Study \<and> slot_subject sl = s) (fst (meal_stage meal l sd st))
     = filter (\<lambda>sl. slot_type sl = Study \<and> slot_subject sl = s) (fst st)"
  by (simp add: meal_stage_def mk_slot_def)

lemma break_stage_study:
  "filter (\<lambda>sl. slot_type sl = Study \<and> slot_subject sl = s) (fst (break_stage cfg n i st))
     = filter (\<lambda>sl. slot_type sl = Study \<and> slot_subject sl = s) (fst st)"
  by (simp add: break_stage_def mk_slot_def)

lemma study_stage_study:
  "length (filter (\<lambda>sl. slot_type sl = Study \<and> slot_subject sl = s)
             (fst (study_stage cfg subj st)))
     = length (filter (\<lambda>sl. slot_type sl = Study \<and> slot_subject sl = s) (fst st))
       + count_list [subj] s"
  by (simp add: study_stage_def mk_slot_def)

lemma schedule_session_study:
  "length (filter (\<lambda>sl. slot_type sl = Study \<and> slot_subject sl = s)
             (fst (schedule_session cfg n x st)))
     = length (filter (\<lambda>sl. slot_type sl = Study \<and> slot_subject sl = s) (fst st))
       + count_list [snd x] s"
proof -
  obtain i subj where x: "x = (i, subj)" by (cases x)
  show ?thesis
    unfolding x schedule_session_stages
    by (simp only: break_stage_study study_stage_study meal_stage_study snd_conv)
qed

lemma fold_schedule_session_study:
  "length (filter (\<lambda>sl. slot_type sl = Study \<and> slot_subject sl = s)
             (fst (fold (schedule_session cfg n) xs st)))
     = length (filter (\<lambda>sl. slot_type sl = Study \<and> slot_subject sl = s) (fst st))
       + count_list (map snd xs) s"
proof (induction xs arbitrary: st)
  case Nil
  then show ?case by simp
next
  case (Cons x xs)
  show ?case
    by (simp only: fold_simps Cons.IH schedule_session_study) simp
qed

text \<open>
  The Study blocks of a day with label \<open>s\<close> are the sessions of the subject \<open>s\<close> and, when
  \<open>s\<close> is the filler's label, the filler.
\<close>

lemma weekday_slots_study:
  "length (filter (\<lambda>sl. slot_type sl = Study \<and> slot_subject sl = s)
             (weekday_slots cfg subjects_today))
     \<le> count_list subjects_today s + (if s = self_study_label then 1 else 0)"
proof -
  let ?b = "fst (breakfast (meals cfg))" and ?bd = "snd (breakfast (meals cfg))"
  let ?w = "wake_time cfg" and ?mr = "morning_routine (meals cfg)"
  let ?init = "[mk_slot ?w (?w + ?mr) morning_routine_exercise_label Routine (?mr / 60),
                mk_slot ?b (?b + ?bd) breakfast_label Meal (?bd / 60)]"
  let ?P = "\<lambda>sl. slot_type sl = Study \<and> slot_subject sl = s"
  obtain slots t where f:
    "fold (schedule_session cfg (length subjects_today)) (enumerate 0 subjects_today)
       (?init, ?b + ?bd) = (slots, t)"
    by (cases "fold (schedule_session cfg (length subjects_today)) (enumerate 0 subjects_today)
       (?init, ?b + ?bd)")
  have "length (filter ?P slots) = length (filter ?P ?init) + count_list subjects_today s"
    using fold_schedule_session_study [of s cfg "length subjects_today"
        "enumerate 0 subjects_today" "(?init, ?b + ?bd)"] f
    by (simp add: map_snd_enumerate)
  then have slots: "length (filter ?P slots) = count_list subjects_today s"
    by (simp add: mk_slot_def)
  show ?thesis
    unfolding weekday_slots_def Let_def f prod.case
    using slots by (auto simp: mk_slot_def)
qed

subsection \<open>The distribution of the pool over the days\<close>

lemma draw_subjects_count:
  "(\<forall>s. count_list day_subjects s \<le> 2) \<Longrightarrow>
   count_list (fst (draw_subjects subject_pool n day_subjects pool_index attempts)) s \<le> 2"
proof (induction subject_pool n day_subjects pool_index attempts rule: draw_subjects.induct)
  case (1 subject_pool n day_subjects pool_index attempts)
  show ?case
  proof (cases "int (length day_subjects) < n \<and> pool_index < length subject_pool \<and> attempts < 20")
    case False
    then show ?thesis using "1.prems" by (subst draw_subjects.simps) auto
  next
    case go: True
    let ?subject = "subject_pool ! (pool_index mod length subject_pool)"
    show ?thesis
    proof (cases "count_list day_subjects ?subject < 2")
      case True
      have "\<forall>s. count_list (day_subjects @ [?subject]) s \<le> 2"
        using "1.prems" True by auto
      from "1.IH"(1) [OF go refl True this] go True show ?thesis
        by (subst draw_subjects.simps) (simp add: Let_def)
    next
      case False
      from "1.IH"(2) [OF go refl False "1.prems"] go False show ?thesis
        by (subst draw_subjects.simps) (simp add: Let_def)
    qed
  qed
qed

lemma draw_subjects_exhausted:
  "length subject_pool \<le> pool_index \<Longrightarrow>
   draw_subjects subject_pool n day_subjects pool_index attempts = (day_subjects, pool_index)"
  by (subst draw_subjects.simps) simp

lemma assign_day_keys:
  "day \<in> fst ` set (fst st) \<Longrightarrow>
   map fst (fst (assign_day subject_pool n day st)) = map fst (fst st)"
  by (cases st) (simp add: assign_day_def Let_def update_keys split: prod.splits)

lemma assign_day_counts:
  assumes "\<forall>d subs s. (d, subs) \<in> set (fst st) \<longrightarrow> count_list subs s \<le> 2"
  shows "\<forall>d subs s. (d, subs) \<in> set (fst (assign_day subject_pool n day st)) \<longrightarrow> count_list subs s \<le> 2"
proof -
  obtain sa i where st: "st = (sa, i)" by (cases st)
  obtain ds i' where dr: "draw_subjects subject_pool (min n 4) [] i 0 = (ds, i')"
    by (cases "draw_subjects subject_pool (min n 4) [] i 0")
  have ds: "\<forall>s. count_list ds s \<le> 2"
    using draw_subjects_count [of "[]" subject_pool "min n 4" i 0] dr by simp
  have "set (AList.update day ds sa) \<subseteq> insert (day, ds) (set sa)"
    by (induction sa) auto
  moreover have "fst (assign_day subject_pool n day st) = AList.update day ds sa"
    by (simp add: st assign_day_def Let_def dr)
  ultimately show ?thesis using assms ds unfolding st by (simp only: fst_conv) blast
qed

lemma fold_assign_day:
  "set ds \<subseteq> fst ` set (fst st) \<Longrightarrow>
   \<forall>d subs s. (d, subs) \<in> set (fst st) \<longrightarrow> count_list subs s \<le> 2 \<Longrightarrow>
   map fst (fst (fold (assign_day subject_pool n) ds st)) = map fst (fst st)
   \<and> (\<forall>d subs s. (d, subs) \<in> set (fst (fold (assign_day subject_pool n) ds st)) \<longrightarrow> count_list subs s \<le> 2)"
proof (induction ds arbitrary: st)
  case Nil
  then show ?case by simp
next
  case (Cons day ds)
  let ?st = "assign_day subject_pool n day st"
  have k: "map fst (fst ?st) = map fst (fst st)"
    using Cons.prems(1) by (simp add: assign_day_keys)
  then have "fst ` set (fst ?st) = fst ` set (fst st)"
    by (metis list.set_map)
  with Cons.prems(1) have 1: "set ds \<subseteq> fst ` set (fst ?st)" by simp
  have 2: "\<forall>d subs s. (d, subs) \<in> set (fst ?st) \<longrightarrow> count_list subs s \<le> 2"
    using assign_day_counts [OF Cons.prems(2)] .
  from Cons.IH [OF 1 2] k show ?case by simp
qed

lemma assign_subjects_keys: "map fst (assign_subjects subject_pool n) = butlast days"
  unfolding assign_subjects_def
  by (subst fold_assign_day [THEN conjunct1]) (auto simp: comp_def image_image)

lemma assign_subjects_counts:
  "map_of (assign_subjects subject_pool n) d = Some subs \<Longrightarrow> count_list subs s \<le> 2"
proof -
  assume m: "map_of (assign_subjects subject_pool n) d = Some subs"
  have "\<forall>d subs s. (d, subs) \<in> set (assign_subjects subject_pool n) \<longrightarrow> count_list subs s \<le> 2"
    unfolding assign_subjects_def
    by (rule fold_assign_day [THEN conjunct2]) (auto simp: comp_def image_image)
  with map_of_SomeD [OF m] show ?thesis by blast
qed

subsection \<open>The generated week\<close>

lemma generate_days_result:
  assumes "set ds \<subseteq> fst ` set sa" and "set ds \<subseteq> fst ` set tt"
  shows "\<exists>tt'. generate_days cfg sa ds tt = Inr tt' \<and> map fst tt' = map fst tt
           \<and> (\<forall>d. map_of tt' d =
                 (if d \<in> set ds then map_option (weekday_slots cfg) (map_of sa d)
                  else map_of tt d))"
  using assms
proof (induction ds arbitrary: tt)
  case Nil
  then show ?case by simp
next
  case (Cons day ds)
  from Cons.prems(1) obtain subs where subs: "map_of sa day = Some subs"
    by (cases "map_of sa day") (auto simp: map_of_eq_None_iff)
  let ?tt = "AList.update day (weekday_slots cfg subs) tt"
  have k: "map fst ?tt = map fst tt"
    using Cons.prems(2) by (simp add: update_keys)
  then have "fst ` set ?tt = fst ` set tt" by (metis list.set_map)
  with Cons.prems have "set ds \<subseteq> fst ` set sa" "set ds \<subseteq> fst ` set ?tt" by simp_all
  from Cons.IH [OF this] obtain tt' where tt':
    "generate_days cfg sa ds ?tt = Inr tt'" "map fst tt' = map fst ?tt"
    "\<forall>d. map_of tt' d = (if d \<in> set ds then map_option (weekday_slots cfg) (map_of sa d)
                          else map_of ?tt d)"
    by blast
  have "generate_days cfg sa (day # ds) tt = Inr tt'"
    using subs tt'(1) by simp
  moreover have "map fst tt' = map fst tt" using tt'(2) k by simp
  moreover have "\<forall>d. map_of tt' d =
      (if d \<in> set (day # ds) then map_option (weekday_slots cfg) (map_of sa d) else map_of tt d)"
    using tt'(3) subs by (auto simp: update_conv')
  ultimately show ?case by blast
qed

lemma generate_unfold:
  "fst (generate_smart_timetable rng g predictions cfg) =
     (case generate_days cfg (week_assignments rng predictions cfg) (butlast days)
             (map (\<lambda>day. (day, [])) days) of
        Inl e \<Rightarrow> Inl e
      | Inr timetable \<Rightarrow>
          (case sunday_slots cfg (sleep_dt_of cfg) predictions of
             Inl e \<Rightarrow> Inl e
           | Inr sunday \<Rightarrow> Inr (AList.update ''Sunday'' sunday timetable)))"
  unfolding generate_smart_timetable_def week_assignments_def shuffled_pool_def sleep_dt_of_def
    Let_def
  by (simp split: prod.splits sum.splits)

lemma generate_state:
  "snd (generate_smart_timetable rng g predictions cfg) =
     snd (np_shuffle rng (np_seed rng 42)
            (build_subject_pool (calculate_subject_distribution predictions 6)))"
  unfolding generate_smart_timetable_def Let_def
  by (simp split: prod.splits sum.splits)

lemma weekdays_generated:
  "\<exists>tt. generate_days cfg (week_assignments rng predictions cfg) (butlast days)
           (map (\<lambda>day. (day, [])) days) = Inr tt
        \<and> map fst tt = days
        \<and> map_of tt ''Sunday'' = Some []
        \<and> (\<forall>day\<in>set (butlast days). \<exists>subs.
              map_of (week_assignments rng predictions cfg) day = Some subs
              \<and> map_of tt day = Some (weekday_slots cfg subs))"
proof -
  let ?sa = "week_assignments rng predictions cfg"
  let ?tt0 = "map (\<lambda>day. (day, [])) days :: timetable"
  have keys: "map fst ?sa = butlast days"
    by (simp add: week_assignments_def assign_subjects_keys)
  then have 1: "set (butlast days) \<subseteq> fst ` set ?sa" by (metis list.set_map subset_refl)
  have 2: "set (butlast days) \<subseteq> fst ` set ?tt0"
    by (simp add: days_def)
  from generate_days_result [OF 1 2, of cfg] obtain tt where tt:
    "generate_days cfg ?sa (butlast days) ?tt0 = Inr tt" "map fst tt = map fst ?tt0"
    "\<forall>d. map_of tt d = (if d \<in> set (butlast days)
             then map_option (weekday_slots cfg) (map_of ?sa d) else map_of ?tt0 d)"
    by blast
  have "map fst tt = days" using tt(2) by (simp add: comp_def)
  moreover have "map_of tt ''Sunday'' = Some []"
    using tt(3) by (simp add: days_def)
  moreover have "\<exists>subs. map_of ?sa day = Some subs \<and> map_of tt day = Some (weekday_slots cfg subs)"
    if "day \<in> set (butlast days)" for day
  proof -
    from that 1 obtain subs where "map_of ?sa day = Some subs"
      by (cases "map_of ?sa day") (auto simp: map_of_eq_None_iff)
    with tt(3) that show ?thesis by simp
  qed
  ultimately show ?thesis using tt(1) by blast
qed

lemma sunday_slots_empty: "sunday_slots cfg t [] = Inl IndexError"
  by (simp add: sunday_slots_def nlargest_def)

lemma nlargest_nonempty: "df \<noteq> [] \<Longrightarrow> 0 < n \<Longrightarrow> nlargest n column df \<noteq> []"
proof -
  assume "df \<noteq> []" "0 < n"
  then have "length (sort_key (\<lambda>row. - column row) df) \<noteq> 0" by simp
  then have "sort_key (\<lambda>row. - column row) df \<noteq> []" by (simp del: length_sort)
  with \<open>0 < n\<close> show ?thesis unfolding nlargest_def by (simp add: take_eq_Nil)
qed

lemma sunday_slots_nonempty:
  "predictions \<noteq> [] \<Longrightarrow> \<exists>sunday. sunday_slots cfg t predictions = Inr sunday"
proof -
  assume "predictions \<noteq> []"
  then have "map subject (nlargest 3 weakness_score predictions) \<noteq> []"
    using nlargest_nonempty [of predictions 3 weakness_score] by simp
  then obtain w0 ws where "map subject (nlargest 3 weakness_score predictions) = w0 # ws"
    by (cases "map subject (nlargest 3 weakness_score predictions)") auto
  then show ?thesis unfolding sunday_slots_def Let_def by simp
qed

lemma generate_returns:
  assumes "predictions \<noteq> []"
  shows "\<exists>tt sunday.
           fst (generate_smart_timetable rng g predictions cfg) = Inr tt
         \<and> map fst tt = days
         \<and> sunday_slots cfg (sleep_dt_of cfg) predictions = Inr sunday
         \<and> map_of tt ''Sunday'' = Some sunday
         \<and> (\<forall>day\<in>set (butlast days). \<exists>subs.
               map_of (week_assignments rng predictions cfg) day = Some subs
               \<and> map_of tt day = Some (weekday_slots cfg subs))"
proof -
  from weekdays_generated [of cfg rng predictions] obtain tt0 where tt0:
    "generate_days cfg (week_assignments rng predictions cfg) (butlast days)
           (map (\<lambda>day. (day, [])) days) = Inr tt0"
    "map fst tt0 = days"
    "\<forall>day\<in>set (butlast days). \<exists>subs.
              map_of (week_assignments rng predictions cfg) day = Some subs
              \<and> map_of tt0 day = Some (weekday_slots cfg subs)"
    by blast
  from sunday_slots_nonempty [OF assms] obtain sunday where
    sun: "sunday_slots cfg (sleep_dt_of cfg) predictions = Inr sunday" by blast
  let ?tt = "AList.update ''Sunday'' sunday tt0"
  have "fst (generate_smart_timetable rng g predictions cfg) = Inr ?tt"
    by (simp add: generate_unfold tt0(1) sun)
  moreover have "map fst ?tt = days"
    using tt0(2) by (simp add: update_keys) (simp add: days_def)
  moreover have "map_of ?tt ''Sunday'' = Some sunday" by (simp add: update_conv')
  moreover have "\<forall>day\<in>set (butlast days). \<exists>subs.
               map_of (week_assignments rng predictions cfg) day = Some subs
               \<and> map_of ?tt day = Some (weekday_slots cfg subs)"
  proof
    fix day assume d: "day \<in> set (butlast days)"
    then have "day \<noteq> ''Sunday''" by (auto simp: days_def)
    with tt0(3) d show "\<exists>subs. map_of (week_assignments rng predictions cfg) day = Some subs
               \<and> map_of ?tt day = Some (weekday_slots cfg subs)"
      by (simp add: update_conv')
  qed
  ultimately show ?thesis using sun by blast
qed

lemma generate_raises:
  "fst (generate_smart_timetable rng g [] cfg) = Inl IndexError"
proof -
  from weekdays_generated [of cfg rng "[]"] obtain tt0 where
    "generate_days cfg (week_assignments rng [] cfg) (butlast days)
           (map (\<lambda>day. (day, [])) days) = Inr tt0"
    by blast
  then show ?thesis by (simp add: generate_unfold sunday_slots_empty)
qed

subsection \<open>Completeness of the generated week\<close>









subsection \<open>Independence of sleep\_time\<close>

lemma study_stage_sleep: "study_stage (cfg\<lparr>sleep_time := s\<rparr>) = study_stage cfg"
  by (simp add: fun_eq_iff study_stage_def)

lemma break_stage_sleep: "break_stage (cfg\<lparr>sleep_time := s\<rparr>) = break_stage cfg"
  by (simp add: fun_eq_iff break_stage_def)

lemma schedule_session_sleep: "schedule_session (cfg\<lparr>sleep_time := s\<rparr>) = schedule_session cfg"
proof (intro ext)
  fix n and x :: "nat \<times> string" and st
  obtain i subj where x: "x = (i, subj)" by (cases x)
  show "schedule_session (cfg\<lparr>sleep_time := s\<rparr>) n x st = schedule_session cfg n x st"
    unfolding x schedule_session_stages study_stage_sleep break_stage_sleep by simp
qed

lemma weekday_slots_sleep: "weekday_slots (cfg\<lparr>sleep_time := s\<rparr>) = weekday_slots cfg"
  unfolding weekday_slots_def [abs_def] schedule_session_sleep by simp

lemma generate_days_sleep:
  "generate_days (cfg\<lparr>sleep_time := s\<rparr>) sa ds tt = generate_days cfg sa ds tt"
  by (induction ds arbitrary: tt) (simp_all add: weekday_slots_sleep split: option.splits)

lemma week_assignments_sleep:
  "week_assignments rng predictions (cfg\<lparr>sleep_time := s\<rparr>) = week_assignments rng predictions cfg"
  by (simp add: week_assignments_def)

lemma sunday_slots_sleep:
  assumes "sunday_slots cfg t predictions = Inr sunday"
  shows "\<exists>sunday'. sunday_slots (cfg\<lparr>sleep_time := s\<rparr>) t' predictions = Inr sunday'
           \<and> butlast sunday' = butlast sunday
           \<and> slot_subject (last sunday) = leisure_label \<and> slot_subject (last sunday') = leisure_label
           \<and> slot_type (last sunday') = slot_type (last sunday)
           \<and> time_start (last sunday') = time_start (last sunday)"
proof (cases "map subject (nlargest 3 weakness_score predictions)")
  case Nil
  with assms show ?thesis by (simp add: sunday_slots_def Let_def)
next
  case (Cons w0 ws)
  with assms show ?thesis
    unfolding sunday_slots_def Let_def by (auto simp: mk_slot_def)
qed

subsection \<open>The Sunday template\<close>



subsection \<open>The claims about the timetable\<close>

text \<open>
  C1, as stated: for every non-empty prediction list and every configuration, each day
  from Monday to Saturday is sorted by start time and free of overlaps. It fails for the
  defaults with a 120 minute morning routine: the routine runs from 06:00 to 08:00 and
  breakfast from 07:30 to 08:00.
\<close>

theorem long_routine_overlaps_breakfast:
  "math_only \<noteq> []
   \<and> (case fst (generate_smart_timetable sample_rng 0 math_only long_routine_config) of
        Inl e \<Rightarrow> None | Inr tt \<Rightarrow> map_of tt ''Monday'') = Some long_routine_monday
   \<and> \<not> non_overlapping long_routine_monday"
proof -
  have "math_only \<noteq> []" by (simp add: math_only_def)
  moreover have "(case fst (generate_smart_timetable sample_rng 0 math_only long_routine_config) of
        Inl e \<Rightarrow> None | Inr tt \<Rightarrow> map_of tt ''Monday'') = Some long_routine_monday"
    by code_simp
  moreover have "\<not> non_overlapping long_routine_monday"
    by code_simp
  ultimately show ?thesis by blast
qed

text \<open>
  C1, amended: for every non-empty prediction list and every configuration whose
  durations are not negative and whose morning routine ends no later than breakfast
  starts, each generated day from Monday to Saturday is sorted by slot start time and no
  two of its slots overlap (start and end being the datetimes the source formats).
\<close>

theorem weekday_schedules_sorted_and_disjoint:
  assumes "predictions \<noteq> []" and "durations_nonnegative cfg" and "routine_before_breakfast cfg"
  shows "\<exists>tt. fst (generate_smart_timetable rng g predictions cfg) = Inr tt
           \<and> (\<forall>day\<in>set (butlast days). \<exists>slots.
                 map_of tt day = Some slots \<and> sorted_by_start slots \<and> non_overlapping slots)"
proof -
  from generate_returns [OF assms(1), of rng g cfg] obtain tt where tt:
    "fst (generate_smart_timetable rng g predictions cfg) = Inr tt"
    "\<forall>day\<in>set (butlast days). \<exists>subs.
               map_of (week_assignments rng predictions cfg) day = Some subs
               \<and> map_of tt day = Some (weekday_slots cfg subs)"
    by blast
  have "\<exists>slots. map_of tt day = Some slots \<and> sorted_by_start slots \<and> non_overlapping slots"
    if "day \<in> set (butlast days)" for day
  proof -
    from tt(2) that obtain subs where s: "map_of tt day = Some (weekday_slots cfg subs)" by blast
    from weekday_slots_sequential [OF assms(2,3), of subs] obtain t where
      "sequential (weekday_slots cfg subs) t" by blast
    with s show ?thesis by (auto intro: sequential_sorted sequential_non_overlapping)
  qed
  with tt(1) show ?thesis by blast
qed

theorem weekday_schedules_sorted_and_disjoint_witness:
  "math_only \<noteq> [] \<and> durations_nonnegative default_config
   \<and> routine_before_breakfast default_config
   \<and> (\<exists>tt. fst (generate_smart_timetable sample_rng 0 math_only default_config) = Inr tt
           \<and> (\<forall>day\<in>set (butlast days). \<exists>slots.
                 map_of tt day = Some slots \<and> sorted_by_start slots \<and> non_overlapping slots))"
proof -
  have 1: "math_only \<noteq> []" by (simp add: math_only_def)
  have 2: "durations_nonnegative default_config"
    by (simp add: durations_nonnegative_def default_config_def default_meals_def)
  have 3: "routine_before_breakfast default_config"
    by (simp add: routine_before_breakfast_def default_config_def default_meals_def)
  from weekday_schedules_sorted_and_disjoint [OF 1 2 3, of sample_rng 0] 1 2 3 show ?thesis by blast
qed

text \<open>
  C2: before a Study block is placed, a block whose span would meet the Lunch window has
  Lunch inserted first. The source tests \<^verbatim>\<open>current_time < lunch_dt\<close> strictly, so a
  session that starts exactly at Lunch start is placed over the Lunch window and Lunch is
  never inserted (\<open>meal_stage_not_before\<close>). Evaluation for one subject, breakfast at
  09:30, 2 hour sessions and 60 minute breaks: Monday's second session is 13:00 to 15:00
  and the day has no Lunch.
\<close>

theorem session_at_lunch_start_skips_lunch:
  "(case fst (generate_smart_timetable sample_rng 0 math_only late_breakfast_config) of
      Inl e \<Rightarrow> None | Inr tt \<Rightarrow> map_of tt ''Monday'')
   = Some [mk_slot 360 405 morning_routine_exercise_label Routine (3 / 4),
           mk_slot 570 600 breakfast_label Meal (1 / 2),
           mk_slot 600 720 ''Math'' Study 2,
           mk_slot 720 780 break_label Break 1,
           mk_slot 780 900 ''Math'' Study 2,
           mk_slot 900 1200 self_study_label Study 5,
           mk_slot 1200 1245 dinner_label Meal (3 / 4)]"
  by code_simp



text \<open>
  C6: subject tokens are drawn with wraparound over the pool, so that days still receive
  tokens when the pool is shorter than the week needs. The source indexes the pool
  modulo its length but stops the loop at \<^verbatim>\<open>pool_index < len(subject_pool)\<close>, so nothing
  wraps (\<open>draw_subjects_exhausted\<close>). Evaluation for one subject with the defaults: the
  pool has 6 tokens, Monday takes two and rejects four, and Tuesday to Saturday receive
  no token; Tuesday is routine, breakfast, a 12 hour filler and dinner.
\<close>

theorem exhausted_pool_leaves_days_empty:
  "build_subject_pool (calculate_subject_distribution math_only 6) = replicate 6 ''Math''
   \<and> week_assignments sample_rng math_only default_config
       = [(''Monday'', [''Math'', ''Math'']), (''Tuesday'', []), (''Wednesday'', []),
          (''Thursday'', []), (''Friday'', []), (''Saturday'', [])]
   \<and> (case fst (generate_smart_timetable sample_rng 0 math_only default_config) of
         Inl e \<Rightarrow> None | Inr tt \<Rightarrow> map_of tt ''Tuesday'')
       = Some [mk_slot 360 405 morning_routine_exercise_label Routine (3 / 4),
               mk_slot 450 480 breakfast_label Meal (1 / 2),
               mk_slot 480 1200 self_study_label Study 12,
               mk_slot 1200 1245 dinner_label Meal (3 / 4)]"
proof -
  have "build_subject_pool (calculate_subject_distribution math_only 6) = replicate 6 ''Math''"
    by code_simp
  moreover have "week_assignments sample_rng math_only default_config
       = [(''Monday'', [''Math'', ''Math'']), (''Tuesday'', []), (''Wednesday'', []),
          (''Thursday'', []), (''Friday'', []), (''Saturday'', [])]"
    by code_simp
  moreover have "(case fst (generate_smart_timetable sample_rng 0 math_only default_config) of
         Inl e \<Rightarrow> None | Inr tt \<Rightarrow> map_of tt ''Tuesday'')
       = Some [mk_slot 360 405 morning_routine_exercise_label Routine (3 / 4),
               mk_slot 450 480 breakfast_label Meal (1 / 2),
               mk_slot 480 1200 self_study_label Study 12,
               mk_slot 1200 1245 dinner_label Meal (3 / 4)]"
    by code_simp
  ultimately show ?thesis by blast
qed

lemma filler_named_pool:
  "build_subject_pool (calculate_subject_distribution filler_named 6)
     = replicate 6 self_study_label @ [''History'']"
  by code_simp

lemma one_among:
  assumes "mset pool = mset (replicate n x @ [y])" and "x \<noteq> y"
  shows "\<exists>i\<le>n. pool = replicate i x @ y # replicate (n - i) x"
proof -
  have "y \<in> set pool" using assms(1) by (metis in_set_conv_decomp mset_eq_setD)
  then obtain as bs where pool: "pool = as @ y # bs" by (auto simp: in_set_conv_decomp)
  have m: "mset (as @ bs) = mset (replicate n x)"
    using assms(1) unfolding pool by simp
  then have "set (as @ bs) = set (replicate n x)" by (rule mset_eq_setD)
  then have "\<forall>z\<in>set as. z = x" "\<forall>z\<in>set bs. z = x" by (auto split: if_splits)
  then have as: "as = replicate (length as) x" and bs: "bs = replicate (length bs) x"
    by (simp_all add: replicate_length_same)
  from m have "length (as @ bs) = n" by (metis length_replicate mset_eq_length)
  then have "length as \<le> n" "length bs = n - length as" by simp_all
  with pool as bs show ?thesis by metis
qed

lemma monday_of_each_pool:
  "\<forall>i\<in>set [0..<7].
     map_option (\<lambda>subs. study_blocks self_study_label (weekday_slots default_config subs))
       (map_of (assign_subjects
                  (replicate i self_study_label @ ''History'' # replicate (6 - i) self_study_label)
                  (max_sessions_per_day default_config)) ''Monday'')
     = Some 3"
  by code_simp

text \<open>
  Under every generator whose shuffle returns a permutation of the pool, Monday of
  \<open>filler_named\<close> has three Study blocks labelled like the filler: two sessions of the
  subject of that name, and the filler itself.
\<close>

lemma filler_named_any_permutation:
  assumes "mset (shuffled_pool rng filler_named)
             = mset (build_subject_pool (calculate_subject_distribution filler_named 6))"
  shows "\<exists>tt slots. fst (generate_smart_timetable rng g filler_named default_config) = Inr tt
           \<and> map_of tt ''Monday'' = Some slots
           \<and> study_blocks self_study_label slots = 3"
proof -
  have ne: "filler_named \<noteq> []" by (simp add: filler_named_def)
  have mon: "''Monday'' \<in> set (butlast days)" by (simp add: days_def)
  from generate_returns [OF ne, of rng g default_config] mon obtain tt subs where
    tt: "fst (generate_smart_timetable rng g filler_named default_config) = Inr tt"
    and subs: "map_of (week_assignments rng filler_named default_config) ''Monday'' = Some subs"
    and slots: "map_of tt ''Monday'' = Some (weekday_slots default_config subs)"
    by blast
  have "self_study_label \<noteq> ''History''" by (simp add: self_study_label_def)
  from one_among [OF assms [unfolded filler_named_pool] this] obtain i where
    i: "i \<le> 6"
    and pool: "shuffled_pool rng filler_named
                 = replicate i self_study_label @ ''History'' # replicate (6 - i) self_study_label"
    by blast
  from i have "i \<in> set [0..<7]" by simp
  with monday_of_each_pool have
    "map_option (\<lambda>subs. study_blocks self_study_label (weekday_slots default_config subs))
       (map_of (assign_subjects
                  (replicate i self_study_label @ ''History'' # replicate (6 - i) self_study_label)
                  (max_sessions_per_day default_config)) ''Monday'')
     = Some 3"
    by blast
  with subs have "study_blocks self_study_label (weekday_slots default_config subs) = 3"
    unfolding week_assignments_def pool by simp
  with tt slots show ?thesis by blast
qed

text \<open>
  C7, as stated: when the pool has at least two distinct subjects, no subject appears
  more than twice among a day's Study blocks. The filler is a Study block too, and its
  label is an ordinary string: a subject of that name, drawn twice, appears three times.
\<close>

theorem filler_named_subject_appears_three_times:
  "2 \<le> card (set (shuffled_pool sample_rng filler_named))
   \<and> (case fst (generate_smart_timetable sample_rng 0 filler_named default_config) of
         Inl e \<Rightarrow> None
       | Inr tt \<Rightarrow> map_option (study_blocks self_study_label) (map_of tt ''Monday'')) = Some 3"
proof -
  have "2 \<le> card (set (shuffled_pool sample_rng filler_named))" by code_simp
  moreover have "(case fst (generate_smart_timetable sample_rng 0 filler_named default_config) of
         Inl e \<Rightarrow> None
       | Inr tt \<Rightarrow> map_option (study_blocks self_study_label) (map_of tt ''Monday'')) = Some 3"
    by code_simp
  ultimately show ?thesis by blast
qed

text \<open>
  C7, amended: in every generated day from Monday to Saturday, for every pool (so also
  for one with at least two distinct subjects), a subject whose name is not the filler's
  label appears at most twice among the day's Study blocks; a subject named like the
  filler appears at most three times.
\<close>

theorem subject_at_most_twice_a_day:
  assumes "fst (generate_smart_timetable rng g predictions cfg) = Inr tt"
      and "day \<in> set (butlast days)"
      and "map_of tt day = Some slots"
  shows "study_blocks s slots \<le> (if s = self_study_label then 3 else 2)"
proof -
  have ne: "predictions \<noteq> []"
    using assms(1) generate_raises [of rng g cfg] by auto
  from generate_returns [OF ne, of rng g cfg] assms(1) have
    "\<forall>day\<in>set (butlast days). \<exists>subs.
               map_of (week_assignments rng predictions cfg) day = Some subs
               \<and> map_of tt day = Some (weekday_slots cfg subs)"
    by auto
  with assms(2,3) obtain subs where
    subs: "map_of (week_assignments rng predictions cfg) day = Some subs"
    and slots: "slots = weekday_slots cfg subs"
    by auto
  have "count_list subs s \<le> 2"
    using subs unfolding week_assignments_def by (rule assign_subjects_counts)
  with weekday_slots_study [of s cfg subs] show ?thesis
    unfolding slots study_blocks_def by (simp split: if_splits)
qed

theorem subject_at_most_twice_a_day_witness:
  "2 \<le> card (set (shuffled_pool sample_rng math_history))
   \<and> (\<exists>tt slots. fst (generate_smart_timetable sample_rng 0 math_history default_config) = Inr tt
     \<and> ''Monday'' \<in> set (butlast days) \<and> map_of tt ''Monday'' = Some slots
     \<and> study_blocks ''Math'' slots \<le> 2)"
proof -
  have two: "2 \<le> card (set (shuffled_pool sample_rng math_history))" by code_simp
  have ne: "math_history \<noteq> []" by (simp add: math_history_def)
  have mon: "''Monday'' \<in> set (butlast days)" by (simp add: days_def)
  have name: "''Math'' \<noteq> self_study_label" by (simp add: self_study_label_def)
  from generate_returns [OF ne, of sample_rng 0 default_config] mon obtain tt slots where
    tt: "fst (generate_smart_timetable sample_rng 0 math_history default_config) = Inr tt"
    and sl: "map_of tt ''Monday'' = Some slots"
    by blast
  from subject_at_most_twice_a_day [OF tt mon sl, of "''Math''"] name
  have "study_blocks ''Math'' slots \<le> 2"
    by simp
  with two tt mon sl show ?thesis by blast
qed




text \<open>
  C9: two calls with the same predictions and configuration return the same timetable
  (and leave the generator in the same state), whatever state earlier calls left the
  generator in: the call reseeds it.
\<close>

theorem timetable_independent_of_generator_state:
  "generate_smart_timetable rng g1 predictions cfg = generate_smart_timetable rng g2 predictions cfg"
  by (simp add: prod_eq_iff generate_unfold generate_state)

theorem timetable_independent_of_generator_state_witness:
  "generate_smart_timetable sample_rng 0 math_only default_config
     = generate_smart_timetable sample_rng 7 math_only default_config"
  using timetable_independent_of_generator_state [of sample_rng 0 math_only default_config 7] .

text \<open>
  C10: two configurations that differ only in sleep_time give the same schedules for
  Monday to Saturday; on Sunday all slots but the last are the same, and the last, the
  Leisure block, keeps its start, label and type: sleep_time sets only its end and hence
  its duration.
\<close>

theorem sleep_time_only_moves_sunday_leisure_end:
  assumes "fst (generate_smart_timetable rng g predictions cfg) = Inr tt"
  shows "\<exists>tt'. fst (generate_smart_timetable rng g predictions (cfg\<lparr>sleep_time := s\<rparr>)) = Inr tt'
           \<and> (\<forall>day\<in>set (butlast days). map_of tt' day = map_of tt day)
           \<and> (\<exists>sunday sunday'.
                 map_of tt ''Sunday'' = Some sunday \<and> map_of tt' ''Sunday'' = Some sunday'
                 \<and> butlast sunday' = butlast sunday
                 \<and> slot_subject (last sunday) = leisure_label \<and> slot_subject (last sunday') = leisure_label
                 \<and> slot_type (last sunday') = slot_type (last sunday)
                 \<and> time_start (last sunday') = time_start (last sunday))"
proof -
  let ?cfg' = "cfg\<lparr>sleep_time := s\<rparr>"
  let ?sa = "week_assignments rng predictions cfg"
  from assms obtain tt0 sunday where
    tt0: "generate_days cfg ?sa (butlast days) (map (\<lambda>day. (day, [])) days) = Inr tt0"
    and sun: "sunday_slots cfg (sleep_dt_of cfg) predictions = Inr sunday"
    and tt: "tt = AList.update ''Sunday'' sunday tt0"
    unfolding generate_unfold by (auto split: sum.splits)
  from sunday_slots_sleep [OF sun, of s "sleep_dt_of ?cfg'"] obtain sunday' where
    sun': "sunday_slots ?cfg' (sleep_dt_of ?cfg') predictions = Inr sunday'"
    and rel: "butlast sunday' = butlast sunday"
       "slot_subject (last sunday) = leisure_label" "slot_subject (last sunday') = leisure_label"
       "slot_type (last sunday') = slot_type (last sunday)"
       "time_start (last sunday') = time_start (last sunday)"
    by blast
  let ?tt' = "AList.update ''Sunday'' sunday' tt0"
  have "fst (generate_smart_timetable rng g predictions ?cfg') = Inr ?tt'"
    by (simp add: generate_unfold week_assignments_sleep generate_days_sleep tt0 sun')
  moreover have "\<forall>day\<in>set (butlast days). map_of ?tt' day = map_of tt day"
    by (auto simp: tt update_conv' days_def)
  moreover have "map_of tt ''Sunday'' = Some sunday" "map_of ?tt' ''Sunday'' = Some sunday'"
    by (simp_all add: tt update_conv')
  ultimately show ?thesis using rel by blast
qed

theorem sleep_time_only_moves_sunday_leisure_end_witness:
  "\<exists>tt tt'. fst (generate_smart_timetable sample_rng 0 math_only default_config) = Inr tt
     \<and> fst (generate_smart_timetable sample_rng 0 math_only
              (default_config\<lparr>sleep_time := 1320\<rparr>)) = Inr tt'
     \<and> map_of tt' ''Monday'' = map_of tt ''Monday''
     \<and> (\<exists>sunday sunday'.
           map_of tt ''Sunday'' = Some sunday \<and> map_of tt' ''Sunday'' = Some sunday'
           \<and> butlast sunday' = butlast sunday
           \<and> time_start (last sunday') = time_start (last sunday))"
proof -
  have ne: "math_only \<noteq> []" by (simp add: math_only_def)
  have mon: "''Monday'' \<in> set (butlast days)" by (simp add: days_def)
  from generate_returns [OF ne, of sample_rng 0 default_config] obtain tt where
    tt: "fst (generate_smart_timetable sample_rng 0 math_only default_config) = Inr tt"
    by blast
  from sleep_time_only_moves_sunday_leisure_end [OF tt, of 1320] mon tt show ?thesis by blast
qed

end
